theory Spec2Isabelle
  imports Main "HOL-Library.Word"
begin

section \<open>Strings and byte buffers\<close>

text \<open>
  A JavaScript string is a sequence of UTF-16 code units; a \<open>Buffer\<close> is a sequence of
  bytes. String literals of the source are written \<open>js ''...''\<close>.
\<close>

type_synonym jschar = "16 word"
type_synonym jsstring = "jschar list"
type_synonym byte = "8 word"

definition js :: "string \<Rightarrow> jsstring" where
  "js s = map of_char s"

definition is_lead :: "jschar \<Rightarrow> bool" where
  "is_lead u = (0xD800 \<le> u \<and> u \<le> 0xDBFF)"

definition is_trail :: "jschar \<Rightarrow> bool" where
  "is_trail u = (0xDC00 \<le> u \<and> u \<le> 0xDFFF)"

text \<open>\<open>String.prototype.startsWith\<close>.\<close>

definition startsWith :: "jsstring \<Rightarrow> jsstring \<Rightarrow> bool" where
  "startsWith s p = (take (length p) s = p)"

text \<open>
  Storing a number into a \<open>Uint8Array\<close> cell and \<open>String.fromCharCode\<close>: both reduce
  modulo the width.
\<close>

definition to_byte :: "nat \<Rightarrow> byte" where
  "to_byte n = of_nat n"

definition to_unit :: "nat \<Rightarrow> jschar" where
  "to_unit n = of_nat n"

text \<open>Lower-case hexadecimal digits, as \<open>Number.prototype.toString(16)\<close> prints them.\<close>

definition hex_digit :: "nat \<Rightarrow> jschar" where
  "hex_digit d = to_unit (if d < 10 then 48 + d else 87 + d)"

fun toString16_fuel :: "nat \<Rightarrow> nat \<Rightarrow> jsstring" where
  "toString16_fuel 0 n = [hex_digit (n mod 16)]"
| "toString16_fuel (Suc k) n =
     (if n < 16 then [hex_digit n]
      else toString16_fuel k (n div 16) @ [hex_digit (n mod 16)])"

text \<open>
  \<open>hash.toString(16)\<close> for an unsigned 32-bit value: at most eight digits, so eight
  rounds of the digit loop are always enough.
\<close>

definition toString16 :: "32 word \<Rightarrow> jsstring" where
  "toString16 w = toString16_fuel 8 (unat w)"

subsection \<open>UTF-8: \<open>Buffer.from(string)\<close> and \<open>buf.toString('utf8')\<close>\<close>

text \<open>
  The \<open>buffer\<close> package installed by \<open>shim.js\<close>: \<open>utf8ToBytes\<close> encodes, writing U+FFFD
  for an unpaired surrogate; \<open>utf8Slice\<close> decodes, writing U+FFFD for every byte
  that does not start a well-formed sequence. Shifts and masks of the package are written
  as \<open>div\<close> and \<open>mod\<close> by powers of two.
\<close>

definition replacement_bytes :: "byte list" where
  "replacement_bytes = [0xEF, 0xBF, 0xBD]"

definition encode_code_point :: "nat \<Rightarrow> byte list" where
  "encode_code_point cp =
     (if cp < 0x80 then [to_byte cp]
      else if cp < 0x800 then
        [to_byte (cp div 64 + 0xC0), to_byte (cp mod 64 + 0x80)]
      else if cp < 0x10000 then
        [to_byte (cp div 4096 + 0xE0), to_byte (cp div 64 mod 64 + 0x80),
         to_byte (cp mod 64 + 0x80)]
      else
        [to_byte (cp div 262144 + 0xF0), to_byte (cp div 4096 mod 64 + 0x80),
         to_byte (cp div 64 mod 64 + 0x80), to_byte (cp mod 64 + 0x80)])"

definition pair_code_point :: "jschar \<Rightarrow> jschar \<Rightarrow> nat" where
  "pair_code_point u v = (unat u - 0xD800) * 1024 + (unat v - 0xDC00) + 0x10000"

text \<open>
  The loop of \<open>utf8ToBytes\<close>, with its variable \<open>leadSurrogate\<close> as the first argument.
  A lead surrogate is held back until the next unit is seen; one that ends the string is
  replaced at once when no lead is held, and is dropped when it follows another lead.
\<close>

fun utf8ToBytes_from :: "jschar option \<Rightarrow> jsstring \<Rightarrow> byte list" where
  "utf8ToBytes_from leadSurrogate [] = []"
| "utf8ToBytes_from None (u # us) =
     (if is_trail u then replacement_bytes @ utf8ToBytes_from None us
      else if is_lead u then
        (if us = [] then replacement_bytes else utf8ToBytes_from (Some u) us)
      else encode_code_point (unat u) @ utf8ToBytes_from None us)"
| "utf8ToBytes_from (Some l) (u # us) =
     (if is_lead u then replacement_bytes @ utf8ToBytes_from (Some u) us
      else if is_trail u then
        encode_code_point (pair_code_point l u) @ utf8ToBytes_from None us
      else replacement_bytes @ encode_code_point (unat u) @ utf8ToBytes_from None us)"

definition utf8ToBytes :: "jsstring \<Rightarrow> byte list" where
  "utf8ToBytes s = utf8ToBytes_from None s"

text \<open>
  \<open>decode_sequence b0 bs\<close>: the code point that starts with byte \<open>b0\<close>, followed by the
  bytes \<open>bs\<close>, and the number of bytes it takes; \<open>None\<close> where \<open>utf8Slice\<close> leaves
  \<open>codePoint\<close> at \<open>null\<close>.
\<close>

definition decode_sequence :: "nat \<Rightarrow> nat list \<Rightarrow> (nat \<times> nat) option" where
  "decode_sequence b0 bs =
     (if b0 > 0xEF then
        (case bs of
           b1 # b2 # b3 # _ \<Rightarrow>
             if b1 div 64 = 2 \<and> b2 div 64 = 2 \<and> b3 div 64 = 2 then
               (let cp = (b0 mod 16) * 262144 + (b1 mod 64) * 4096 + (b2 mod 64) * 64
                         + b3 mod 64
                in if cp > 0xFFFF \<and> cp < 0x110000 then Some (cp, 4) else None)
             else None
         | _ \<Rightarrow> None)
      else if b0 > 0xDF then
        (case bs of
           b1 # b2 # _ \<Rightarrow>
             if b1 div 64 = 2 \<and> b2 div 64 = 2 then
               (let cp = (b0 mod 16) * 4096 + (b1 mod 64) * 64 + b2 mod 64
                in if cp > 0x7FF \<and> (cp < 0xD800 \<or> cp > 0xDFFF) then Some (cp, 3) else None)
             else None
         | _ \<Rightarrow> None)
      else if b0 > 0xBF then
        (case bs of
           b1 # _ \<Rightarrow>
             if b1 div 64 = 2 then
               (let cp = (b0 mod 32) * 64 + b1 mod 64
                in if cp > 0x7F then Some (cp, 2) else None)
             else None
         | _ \<Rightarrow> None)
      else if b0 < 0x80 then Some (b0, 1)
      else None)"

definition units_of_code_point :: "nat \<Rightarrow> jsstring" where
  "units_of_code_point cp =
     (if cp > 0xFFFF then
        [to_unit ((cp - 0x10000) div 1024 + 0xD800), to_unit ((cp - 0x10000) mod 1024 + 0xDC00)]
      else [to_unit cp])"

fun utf8Slice :: "byte list \<Rightarrow> jsstring" where
  "utf8Slice [] = []"
| "utf8Slice (b # bs) =
     (case decode_sequence (unat b) (map unat (take 3 bs)) of
        None \<Rightarrow> 0xFFFD # utf8Slice bs
      | Some (cp, n) \<Rightarrow> units_of_code_point cp @ utf8Slice (drop (n - 1) bs))"

subsection \<open>Base64: \<open>buf.toString('base64')\<close> and \<open>Buffer.from(s, 'base64')\<close>\<close>

definition base64_char :: "nat \<Rightarrow> jschar" where
  "base64_char d =
     to_unit (if d < 26 then 65 + d
             else if d < 52 then 71 + d
             else if d < 62 then d - 4
             else if d = 62 then 0x2B
             else 0x2F)"

text \<open>
  The reverse table of \<open>base64-js\<close>; it also accepts the URL-safe \<open>-\<close> and \<open>_\<close>.
\<close>

definition base64_value :: "jschar \<Rightarrow> nat option" where
  "base64_value c =
     (let n = unat c
      in if 0x41 \<le> n \<and> n \<le> 0x5A then Some (n - 65)
         else if 0x61 \<le> n \<and> n \<le> 0x7A then Some (n - 71)
         else if 0x30 \<le> n \<and> n \<le> 0x39 then Some (n + 4)
         else if n = 0x2B \<or> n = 0x2D then Some 62
         else if n = 0x2F \<or> n = 0x5F then Some 63
         else None)"

fun base64_encode :: "byte list \<Rightarrow> jsstring" where
  "base64_encode [] = []"
| "base64_encode [a] =
     [base64_char (unat a div 4), base64_char (unat a mod 4 * 16), 0x3D, 0x3D]"
| "base64_encode [a, b] =
     [base64_char (unat a div 4), base64_char (unat a mod 4 * 16 + unat b div 16),
      base64_char (unat b mod 16 * 4), 0x3D]"
| "base64_encode (a # b # c # bs) =
     [base64_char (unat a div 4), base64_char (unat a mod 4 * 16 + unat b div 16),
      base64_char (unat b mod 16 * 4 + unat c div 64), base64_char (unat c mod 64)]
     @ base64_encode bs"

fun decode_sextets :: "nat list \<Rightarrow> byte list" where
  "decode_sextets (p # q # r # s # rest) =
     [to_byte (p * 4 + q div 16), to_byte (q mod 16 * 16 + r div 4), to_byte (r mod 4 * 64 + s)]
     @ decode_sextets rest"
| "decode_sextets [p, q, r] = [to_byte (p * 4 + q div 16), to_byte (q mod 16 * 16 + r div 4)]"
| "decode_sextets [p, q] = [to_byte (p * 4 + q div 16)]"
| "decode_sextets _ = []"

text \<open>
  \<open>base64clean\<close> keeps what stands before the first \<open>=\<close> and drops every character
  outside the alphabet; a single left-over character decodes to nothing.
\<close>

definition base64_decode :: "jsstring \<Rightarrow> byte list" where
  "base64_decode s =
     decode_sextets (List.map_filter base64_value (takeWhile (\<lambda>c. c \<noteq> 0x3D) s))"

section \<open>JSON\<close>

text \<open>
  The values \<open>JSON.parse\<close> produces. A number is kept as its literal text; \<open>undefined\<close>
  is not a JSON value and is added by \<open>jsval\<close>.
\<close>

datatype json =
    JNull
  | JBool bool
  | JNum jsstring
  | JStr jsstring
  | JArr "json list"
  | JObj "(jsstring \<times> json) list"

datatype jsval = Undefined | Val json

subsection \<open>\<open>JSON.stringify\<close> of strings\<close>

definition unicode_escape :: "jschar \<Rightarrow> jsstring" where
  "unicode_escape u =
     [0x5C, 0x75, hex_digit (unat u div 4096), hex_digit (unat u div 256 mod 16),
      hex_digit (unat u div 16 mod 16), hex_digit (unat u mod 16)]"

text \<open>
  \<open>QuoteJSONString\<close> for one code unit that is not part of a surrogate pair: the short
  escapes, \<open>\uXXXX\<close> for the other control characters and for a lone surrogate, the
  unit itself otherwise.
\<close>

definition quote_unit :: "jschar \<Rightarrow> jsstring" where
  "quote_unit u =
     (if u = 0x08 then [0x5C, 0x62]
      else if u = 0x09 then [0x5C, 0x74]
      else if u = 0x0A then [0x5C, 0x6E]
      else if u = 0x0C then [0x5C, 0x66]
      else if u = 0x0D then [0x5C, 0x72]
      else if u = 0x22 then [0x5C, 0x22]
      else if u = 0x5C then [0x5C, 0x5C]
      else if u < 0x20 \<or> is_lead u \<or> is_trail u then unicode_escape u
      else [u])"

fun quote_units :: "jsstring \<Rightarrow> jsstring" where
  "quote_units [] = []"
| "quote_units [u] = quote_unit u"
| "quote_units (u # v # us) =
     (if is_lead u \<and> is_trail v then u # v # quote_units us
      else quote_unit u @ quote_units (v # us))"

definition quote :: "jsstring \<Rightarrow> jsstring" where
  "quote s = 0x22 # quote_units s @ [0x22]"

text \<open>\<open>JSON.stringify({ data, salt })\<close> for two strings.\<close>

definition stringify_data_salt :: "jsstring \<Rightarrow> jsstring \<Rightarrow> jsstring" where
  "stringify_data_salt d s =
     js ''{'' @ quote (js ''data'') @ js '':'' @ quote d @ js '','' @ quote (js ''salt'')
     @ js '':'' @ quote s @ js ''}''"

subsection \<open>\<open>JSON.parse\<close>\<close>

definition is_ws :: "jschar \<Rightarrow> bool" where
  "is_ws c = (c = 0x20 \<or> c = 0x09 \<or> c = 0x0A \<or> c = 0x0D)"

definition skip_ws :: "jsstring \<Rightarrow> jsstring" where
  "skip_ws s = dropWhile is_ws s"

definition is_digit :: "jschar \<Rightarrow> bool" where
  "is_digit c = (0x30 \<le> c \<and> c \<le> 0x39)"

definition hex_value :: "jschar \<Rightarrow> nat option" where
  "hex_value c =
     (let n = unat c
      in if 0x30 \<le> n \<and> n \<le> 0x39 then Some (n - 48)
         else if 0x61 \<le> n \<and> n \<le> 0x66 then Some (n - 87)
         else if 0x41 \<le> n \<and> n \<le> 0x46 then Some (n - 55)
         else None)"

definition hex4_value :: "jschar \<Rightarrow> jschar \<Rightarrow> jschar \<Rightarrow> jschar \<Rightarrow> jschar option" where
  "hex4_value a b c d =
     (case (hex_value a, hex_value b, hex_value c, hex_value d) of
        (Some p, Some q, Some r, Some s) \<Rightarrow> Some (to_unit (p * 4096 + q * 256 + r * 16 + s))
      | _ \<Rightarrow> None)"

definition simple_escape :: "jschar \<Rightarrow> jschar option" where
  "simple_escape e =
     (if e = 0x22 then Some 0x22
      else if e = 0x5C then Some 0x5C
      else if e = 0x2F then Some 0x2F
      else if e = 0x62 then Some 0x08
      else if e = 0x66 then Some 0x0C
      else if e = 0x6E then Some 0x0A
      else if e = 0x72 then Some 0x0D
      else if e = 0x74 then Some 0x09
      else None)"

definition prepend :: "jschar \<Rightarrow> (jsstring \<times> jsstring) option \<Rightarrow> (jsstring \<times> jsstring) option" where
  "prepend x r = map_option (\<lambda>(s, rest). (x # s, rest)) r"

text \<open>
  The characters of a string literal after its opening quote: the string and what
  follows the closing quote.
\<close>

fun parse_string_chars :: "jsstring \<Rightarrow> (jsstring \<times> jsstring) option" where
  "parse_string_chars [] = None"
| "parse_string_chars (c # cs) =
     (if c = 0x22 then Some ([], cs)
      else if c = 0x5C then
        (case cs of
           [] \<Rightarrow> None
         | e # es \<Rightarrow>
             if e = 0x75 then
               (case es of
                  h1 # h2 # h3 # h4 # r \<Rightarrow>
                    (case hex4_value h1 h2 h3 h4 of
                       None \<Rightarrow> None
                     | Some u \<Rightarrow> prepend u (parse_string_chars r))
                | _ \<Rightarrow> None)
             else
               (case simple_escape e of
                  None \<Rightarrow> None
                | Some x \<Rightarrow> prepend x (parse_string_chars es)))
      else if c < 0x20 then None
      else prepend c (parse_string_chars cs))"

definition digits1 :: "jsstring \<Rightarrow> (jsstring \<times> jsstring) option" where
  "digits1 s = (if takeWhile is_digit s = [] then None
                else Some (takeWhile is_digit s, dropWhile is_digit s))"

text \<open>
  A number literal: \<open>-? (0 | [1-9][0-9]*) (. [0-9]+)? ([eE] [+-]? [0-9]+)?\<close>; its text
  and what follows it.
\<close>

definition parse_int_part :: "jsstring \<Rightarrow> (jsstring \<times> jsstring) option" where
  "parse_int_part s =
     (case s of
        [] \<Rightarrow> None
      | c # cs \<Rightarrow> if c = 0x30 then Some ([c], cs) else digits1 s)"

definition parse_frac_part :: "jsstring \<Rightarrow> (jsstring \<times> jsstring) option" where
  "parse_frac_part s =
     (case s of
        [] \<Rightarrow> Some ([], s)
      | c # cs \<Rightarrow>
          if c = 0x2E then map_option (\<lambda>(ds, r). (c # ds, r)) (digits1 cs)
          else Some ([], s))"

definition parse_exp_part :: "jsstring \<Rightarrow> (jsstring \<times> jsstring) option" where
  "parse_exp_part s =
     (case s of
        [] \<Rightarrow> Some ([], s)
      | c # cs \<Rightarrow>
          if c = 0x65 \<or> c = 0x45 then
            (case cs of
               [] \<Rightarrow> None
             | g # gs \<Rightarrow>
                 if g = 0x2B \<or> g = 0x2D
                 then map_option (\<lambda>(ds, r). (c # g # ds, r)) (digits1 gs)
                 else map_option (\<lambda>(ds, r). (c # ds, r)) (digits1 cs))
          else Some ([], s))"

definition parse_number :: "jsstring \<Rightarrow> (jsstring \<times> jsstring) option" where
  "parse_number s =
     (let (sign, s1) = (case s of [] \<Rightarrow> ([], s)
                        | c # cs \<Rightarrow> if c = 0x2D then ([c], cs) else ([], s))
      in case parse_int_part s1 of
           None \<Rightarrow> None
         | Some (i, s2) \<Rightarrow>
             (case parse_frac_part s2 of
                None \<Rightarrow> None
              | Some (f, s3) \<Rightarrow>
                  (case parse_exp_part s3 of
                     None \<Rightarrow> None
                   | Some (e, s4) \<Rightarrow> Some (sign @ i @ f @ e, s4))))"

definition with_value :: "('a \<Rightarrow> 'b) \<Rightarrow> ('a \<times> jsstring) option \<Rightarrow> ('b \<times> jsstring) option" where
  "with_value f r = map_option (\<lambda>(v, rest). (f v, rest)) r"

text \<open>
  The recursive-descent parser. The first argument bounds the number of nested calls;
  every call below the first has consumed at least one character since the call two
  levels up, so \<open>JSON_parse\<close> never runs out.
\<close>

fun parse_value :: "nat \<Rightarrow> jsstring \<Rightarrow> (json \<times> jsstring) option"
  and parse_elements :: "nat \<Rightarrow> jsstring \<Rightarrow> (json list \<times> jsstring) option"
  and parse_members :: "nat \<Rightarrow> jsstring \<Rightarrow> ((jsstring \<times> json) list \<times> jsstring) option"
where
  "parse_value 0 s = None"
| "parse_value (Suc n) s =
     (case skip_ws s of
        [] \<Rightarrow> None
      | c # cs \<Rightarrow>
          if c = 0x22 then with_value JStr (parse_string_chars cs)
          else if c = 0x5B then
            (case skip_ws cs of
               [] \<Rightarrow> None
             | d # ds \<Rightarrow> if d = 0x5D then Some (JArr [], ds)
                         else with_value JArr (parse_elements n cs))
          else if c = 0x7B then
            (case skip_ws cs of
               [] \<Rightarrow> None
             | d # ds \<Rightarrow> if d = 0x7D then Some (JObj [], ds)
                         else with_value JObj (parse_members n cs))
          else if startsWith (c # cs) (js ''null'') then Some (JNull, drop 3 cs)
          else if startsWith (c # cs) (js ''true'') then Some (JBool True, drop 3 cs)
          else if startsWith (c # cs) (js ''false'') then Some (JBool False, drop 4 cs)
          else with_value JNum (parse_number (c # cs)))"
| "parse_elements 0 s = None"
| "parse_elements (Suc n) s =
     (case parse_value n s of
        None \<Rightarrow> None
      | Some (v, r) \<Rightarrow>
          (case skip_ws r of
             [] \<Rightarrow> None
           | c # cs \<Rightarrow>
               if c = 0x5D then Some ([v], cs)
               else if c = 0x2C then with_value (Cons v) (parse_elements n cs)
               else None))"
| "parse_members 0 s = None"
| "parse_members (Suc n) s =
     (case skip_ws s of
        [] \<Rightarrow> None
      | q # qs \<Rightarrow>
          if q \<noteq> 0x22 then None
          else
            (case parse_string_chars qs of
               None \<Rightarrow> None
             | Some (k, r) \<Rightarrow>
                 (case skip_ws r of
                    [] \<Rightarrow> None
                  | c # cs \<Rightarrow>
                      if c \<noteq> 0x3A then None
                      else
                        (case parse_value n cs of
                           None \<Rightarrow> None
                         | Some (v, r2) \<Rightarrow>
                             (case skip_ws r2 of
                                [] \<Rightarrow> None
                              | d # ds \<Rightarrow>
                                  if d = 0x7D then Some ([(k, v)], ds)
                                  else if d = 0x2C
                                  then with_value (Cons (k, v)) (parse_members n ds)
                                  else None)))))"

text \<open>\<open>JSON.parse\<close>: \<open>None\<close> is the \<open>SyntaxError\<close>.\<close>

definition JSON_parse :: "jsstring \<Rightarrow> json option" where
  "JSON_parse s =
     (case parse_value (2 * length s + 2) s of
        None \<Rightarrow> None
      | Some (v, r) \<Rightarrow> if skip_ws r = [] then Some v else None)"

text \<open>
  Reading the property \<open>k\<close> of a parsed value, for a key that no prototype defines:
  \<open>None\<close> is the \<open>TypeError\<close> of reading a property of \<open>null\<close> or \<open>undefined\<close>. Of two
  members with the same key, \<open>JSON.parse\<close> keeps the later.
\<close>

definition get_property :: "jsval \<Rightarrow> jsstring \<Rightarrow> jsval option" where
  "get_property v k =
     (case v of
        Undefined \<Rightarrow> None
      | Val JNull \<Rightarrow> None
      | Val (JObj ms) \<Rightarrow>
          (case map_of (rev ms) k of None \<Rightarrow> Some Undefined | Some x \<Rightarrow> Some (Val x))
      | Val _ \<Rightarrow> Some Undefined)"

section \<open>KeyManager\<close>

datatype js_error = Error string | TypeError

record StoredWallet =
  address :: jsstring
  encryptedPrivateKey :: jsstring
  createdAt :: nat

record credentials =
  username :: jsstring
  password :: jsstring

text \<open>
  The device: the two Keychain stores and the two items the application keeps in
  EncryptedStorage. The items are JSON documents written by \<open>JSON.stringify\<close> and read
  by \<open>JSON.parse\<close>; the device holds them in parsed form.
\<close>

record device =
  internetCredentials :: "jsstring \<rightharpoonup> credentials"
  genericPassword :: "jsstring \<rightharpoonup> credentials"
  mnemonicItem :: "(jsstring \<times> nat) option"
  walletListItem :: "StoredWallet list option"

text \<open>
  The calls into the two storage libraries. Each of them may reject; \<open>flt c\<close> says that
  call \<open>c\<close> rejects while the operation at hand runs.
\<close>

datatype storage_call =
    ES_getItem jsstring
  | ES_setItem jsstring
  | ES_clear
  | KC_setInternetCredentials jsstring
  | KC_getInternetCredentials jsstring
  | KC_resetInternetCredentials jsstring
  | KC_setGenericPassword jsstring
  | KC_getGenericPassword jsstring
  | KC_resetGenericPassword jsstring

type_synonym faults = "storage_call \<Rightarrow> bool"

definition no_faults :: faults where
  "no_faults = (\<lambda>c. False)"

definition KEYCHAIN_SERVICE :: jsstring where
  "KEYCHAIN_SERVICE = js ''com.web3wallet.keys''"

definition MNEMONIC_KEY :: jsstring where
  "MNEMONIC_KEY = js ''wallet_mnemonic''"

definition WALLET_LIST_KEY :: jsstring where
  "WALLET_LIST_KEY = js ''wallet_list''"

definition key_service :: "jsstring \<Rightarrow> jsstring" where
  "key_service addr = KEYCHAIN_SERVICE @ js ''.'' @ addr"

definition pin_service :: jsstring where
  "pin_service = KEYCHAIN_SERVICE @ js ''.pin''"

text \<open>
  \<open>encrypt(data, key)\<close>. The random wallet contributes \<open>salt\<close>, the first ten characters
  of its address; the keystore that \<open>wallet.encrypt(key)\<close> computes is dropped, and
  the call is taken to return.
\<close>

definition encrypt :: "jsstring \<Rightarrow> jsstring \<Rightarrow> jsstring \<Rightarrow> jsstring" where
  "encrypt data key salt = base64_encode (utf8ToBytes (stringify_data_salt data salt))"

text \<open>
  \<open>decrypt(encrypted, key)\<close>: every exception becomes \<open>Error('Decryption failed')\<close>.
  Destructuring \<open>{ data }\<close> throws on \<open>null\<close>.
\<close>

definition decrypt :: "jsstring \<Rightarrow> jsstring \<Rightarrow> js_error + jsval" where
  "decrypt encrypted key =
     (let decoded = utf8Slice (base64_decode encrypted)
      in case JSON_parse decoded of
           None \<Rightarrow> Inl (Error ''Decryption failed'')
         | Some parsed \<Rightarrow>
             (case get_property (Val parsed) (js ''data'') of
                None \<Rightarrow> Inl (Error ''Decryption failed'')
              | Some data \<Rightarrow> Inr data))"

text \<open>
  \<open>Array.from(pin)\<close> walks the string by code points; \<open>char.charCodeAt(0)\<close> is the first
  code unit of each.
\<close>

fun code_point_heads :: "jsstring \<Rightarrow> jschar list" where
  "code_point_heads [] = []"
| "code_point_heads [u] = [u]"
| "code_point_heads (u # v # us) =
     (if is_lead u \<and> is_trail v then u # code_point_heads us
      else u # code_point_heads (v # us))"

text \<open>
  \<open>(acc * 31 + code) >>> 0\<close>: the product and the sum are exact in a double, and
  \<open>>>> 0\<close> reduces them modulo \<open>2 ^ 32\<close>.
\<close>

definition hashPin :: "jsstring \<Rightarrow> jsstring" where
  "hashPin pin =
     toString16 (foldl (\<lambda>acc c. acc * 31 + ucast c) (0 :: 32 word) (code_point_heads pin))"

definition storeMnemonic ::
  "faults \<Rightarrow> nat \<Rightarrow> jsstring \<Rightarrow> jsstring \<Rightarrow> jsstring \<Rightarrow> device \<Rightarrow> bool \<times> device" where
  "storeMnemonic flt now salt mnemonic pin dev =
     (let encryptedMnemonic = encrypt mnemonic pin salt
      in if flt (ES_setItem MNEMONIC_KEY) then (False, dev)
         else (True, dev\<lparr>mnemonicItem := Some (encryptedMnemonic, now)\<rparr>))"

definition retrieveMnemonic :: "faults \<Rightarrow> jsstring \<Rightarrow> device \<Rightarrow> jsval" where
  "retrieveMnemonic flt pin dev =
     (if flt (ES_getItem MNEMONIC_KEY) then Val JNull
      else case mnemonicItem dev of
             None \<Rightarrow> Val JNull
           | Some (encrypted, t) \<Rightarrow>
               (case decrypt encrypted pin of Inl e \<Rightarrow> Val JNull | Inr m \<Rightarrow> m))"

definition getWalletList :: "faults \<Rightarrow> device \<Rightarrow> StoredWallet list" where
  "getWalletList flt dev =
     (if flt (ES_getItem WALLET_LIST_KEY) then []
      else case walletListItem dev of None \<Rightarrow> [] | Some wallets \<Rightarrow> wallets)"

text \<open>\<open>Array.prototype.findIndex\<close>; \<open>None\<close> is the \<open>-1\<close> of the source.\<close>

fun findIndex :: "('a \<Rightarrow> bool) \<Rightarrow> 'a list \<Rightarrow> nat option" where
  "findIndex P [] = None"
| "findIndex P (x # xs) = (if P x then Some 0 else map_option Suc (findIndex P xs))"

definition addToWalletList ::
  "faults \<Rightarrow> nat \<Rightarrow> jsstring \<Rightarrow> jsstring \<Rightarrow> device \<Rightarrow> js_error + device" where
  "addToWalletList flt now addr encryptedKey dev =
     (let wallets = getWalletList flt dev;
          wallets' =
            (case findIndex (\<lambda>w. address w = addr) wallets of
               Some existingIndex \<Rightarrow>
                 wallets[existingIndex :=
                   \<lparr>address = addr, encryptedPrivateKey = encryptedKey,
                    createdAt = createdAt (wallets ! existingIndex)\<rparr>]
             | None \<Rightarrow>
                 wallets @ [\<lparr>address = addr, encryptedPrivateKey = encryptedKey,
                            createdAt = now\<rparr>])
      in if flt (ES_setItem WALLET_LIST_KEY) then Inl (Error ''EncryptedStorage.setItem'')
         else Inr (dev\<lparr>walletListItem := Some wallets'\<rparr>))"

definition storePrivateKey ::
  "faults \<Rightarrow> nat \<Rightarrow> jsstring \<Rightarrow> jsstring \<Rightarrow> jsstring \<Rightarrow> jsstring \<Rightarrow> device \<Rightarrow> bool \<times> device" where
  "storePrivateKey flt now salt addr privateKey pin dev =
     (let encryptedKey = encrypt privateKey pin salt
      in if flt (KC_setInternetCredentials (key_service addr)) then (False, dev)
         else
           (let dev1 = dev\<lparr>internetCredentials := (internetCredentials dev)
                          (key_service addr \<mapsto> \<lparr>username = addr, password = encryptedKey\<rparr>)\<rparr>
            in case addToWalletList flt now addr encryptedKey dev1 of
                 Inl e \<Rightarrow> (False, dev1)
               | Inr dev2 \<Rightarrow> (True, dev2)))"

text \<open>\<open>retrievePrivateKey\<close>: \<open>Val JNull\<close> is the \<open>null\<close> of the source.\<close>

definition retrievePrivateKey :: "faults \<Rightarrow> jsstring \<Rightarrow> jsstring \<Rightarrow> device \<Rightarrow> jsval" where
  "retrievePrivateKey flt addr pin dev =
     (if flt (KC_getInternetCredentials (key_service addr)) then Val JNull
      else case internetCredentials dev (key_service addr) of
             None \<Rightarrow> Val JNull
           | Some cred \<Rightarrow>
               (case decrypt (password cred) pin of
                  Inl e \<Rightarrow> Val JNull
                | Inr decrypted \<Rightarrow> decrypted))"

definition setPin :: "faults \<Rightarrow> jsstring \<Rightarrow> device \<Rightarrow> bool \<times> device" where
  "setPin flt pin dev =
     (let pinHash = hashPin pin
      in if flt (KC_setGenericPassword pin_service) then (False, dev)
         else (True, dev\<lparr>genericPassword := (genericPassword dev)
                          (pin_service \<mapsto> \<lparr>username = js ''pin'', password = pinHash\<rparr>)\<rparr>))"

definition verifyPin :: "faults \<Rightarrow> jsstring \<Rightarrow> device \<Rightarrow> bool" where
  "verifyPin flt pin dev =
     (if flt (KC_getGenericPassword pin_service) then False
      else case genericPassword dev pin_service of
             None \<Rightarrow> False
           | Some stored \<Rightarrow> password stored = hashPin pin)"

definition hasPin :: "faults \<Rightarrow> device \<Rightarrow> bool" where
  "hasPin flt dev =
     (if flt (KC_getGenericPassword pin_service) then False
      else genericPassword dev pin_service \<noteq> None)"


section \<open>WalletService\<close>

record WalletAccount =
  wa_address :: jsstring
  wa_privateKey :: jsstring
  wa_mnemonic :: "jsstring option"

text \<open>\<open>WhiteSpace\<close> and \<open>LineTerminator\<close> of ECMAScript, as \<open>trim\<close> and \<open>parseInt\<close> strip them.\<close>

definition is_js_space :: "jschar \<Rightarrow> bool" where
  "is_js_space c =
     (c = 0x09 \<or> c = 0x0A \<or> c = 0x0B \<or> c = 0x0C \<or> c = 0x0D \<or> c = 0x20 \<or> c = 0xA0
      \<or> c = 0x1680 \<or> (0x2000 \<le> c \<and> c \<le> 0x200A) \<or> c = 0x2028 \<or> c = 0x2029
      \<or> c = 0x202F \<or> c = 0x205F \<or> c = 0x3000 \<or> c = 0xFEFF)"

definition trim :: "jsstring \<Rightarrow> jsstring" where
  "trim s = rev (dropWhile is_js_space (rev (dropWhile is_js_space s)))"

text \<open>
  What \<open>WalletService\<close> takes from outside: the storage faults and the clock of
  \<open>KeyManager\<close>, the phrase \<open>Mnemonic.fromEntropy\<close> makes of the sixteen random bytes,
  whether \<open>Mnemonic.fromPhrase\<close> accepts a phrase, the address and private key
  \<open>HDNodeWallet.fromMnemonic\<close> derives at \<open>m/44'/60'/0'/0/index\<close>, and the salts of the two
  \<open>encrypt\<close> calls.
\<close>

record wallet_env =
  env_faults :: faults
  env_now :: nat
  env_entropyPhrase :: jsstring
  env_validPhrase :: "jsstring \<Rightarrow> bool"
  env_derive :: "jsstring \<Rightarrow> nat \<Rightarrow> jsstring \<times> jsstring"
  env_mnemonicSalt :: jsstring
  env_keySalt :: jsstring

definition generateMnemonic :: "wallet_env \<Rightarrow> jsstring" where
  "generateMnemonic env = env_entropyPhrase env"

definition validateMnemonic :: "wallet_env \<Rightarrow> jsstring \<Rightarrow> bool" where
  "validateMnemonic env mnemonic = env_validPhrase env (trim mnemonic)"

text \<open>\<open>createWalletFromMnemonic\<close>: \<open>None\<close> where \<open>Mnemonic.fromPhrase\<close> throws.\<close>

definition createWalletFromMnemonic :: "wallet_env \<Rightarrow> jsstring \<Rightarrow> nat \<Rightarrow> WalletAccount option" where
  "createWalletFromMnemonic env mnemonic index =
     (if env_validPhrase env (trim mnemonic) then
        Some \<lparr>wa_address = fst (env_derive env (trim mnemonic) index),
              wa_privateKey = snd (env_derive env (trim mnemonic) index),
              wa_mnemonic = Some (trim mnemonic)\<rparr>
      else None)"

text \<open>
  \<open>createNewWallet\<close>: the three \<open>keyManager\<close> calls are awaited and their boolean
  results dropped; \<open>None\<close> is the \<open>null\<close> of the \<open>catch\<close> block.
\<close>

definition createNewWallet :: "wallet_env \<Rightarrow> jsstring \<Rightarrow> device \<Rightarrow> WalletAccount option \<times> device" where
  "createNewWallet env pin dev =
     (let mnemonic = generateMnemonic env
      in case createWalletFromMnemonic env mnemonic 0 of
           None \<Rightarrow> (None, dev)
         | Some wallet \<Rightarrow>
             (let dev1 = snd (storeMnemonic (env_faults env) (env_now env)
                               (env_mnemonicSalt env) mnemonic pin dev);
                  dev2 = snd (storePrivateKey (env_faults env) (env_now env) (env_keySalt env)
                               (wa_address wallet) (wa_privateKey wallet) pin dev1);
                  dev3 = snd (setPin (env_faults env) pin dev2)
              in (Some wallet, dev3)))"

section \<open>TransactionService\<close>

text \<open>
  The fields of an ethers \<open>TransactionRequest\<close> the service reads or writes; \<open>None\<close> is
  an absent field.
\<close>

record TransactionRequest =
  tx_to :: "jsstring option"
  tx_value :: "nat option"
  tx_data :: "jsstring option"
  tx_nonce :: "nat option"
  tx_gasLimit :: "nat option"
  tx_gasPrice :: "nat option"
  tx_maxFeePerGas :: "nat option"
  tx_chainId :: "nat option"

text \<open>
  The provider and ethers: the address of a private key (\<open>None\<close> where \<open>new Wallet\<close>
  throws), the pending transaction count, the gas estimate for a request and its sender,
  the gas price of the fee data (which may be \<open>null\<close>), the hash the network returns for
  a signed request, the current chain and \<open>parseUnits(_, 'gwei')\<close>. \<open>None\<close> as the
  result of a call is its rejection.
\<close>

record provider =
  walletAddress :: "jsstring \<Rightarrow> jsstring option"
  getTransactionCount :: "jsstring \<Rightarrow> nat option"
  estimateGas :: "TransactionRequest \<Rightarrow> jsstring \<Rightarrow> nat option"
  feeDataGasPrice :: "nat option option"
  sendTransaction :: "jsstring \<Rightarrow> TransactionRequest \<Rightarrow> jsstring option"
  currentChainId :: nat
  parseGwei :: "jsstring \<Rightarrow> nat option"

text \<open>\<open>!x\<close> for a number or bigint field: absent and zero are both falsy.\<close>

definition falsy :: "nat option \<Rightarrow> bool" where
  "falsy x = (x = None \<or> x = Some 0)"

text \<open>
  \<open>signAndSend\<close> returns the hash; the model returns with it the request that was handed
  to \<open>wallet.sendTransaction\<close>.
\<close>

definition signAndSend ::
  "provider \<Rightarrow> jsstring \<Rightarrow> TransactionRequest \<Rightarrow> js_error + jsstring \<times> TransactionRequest" where
  "signAndSend prov privateKey tx =
     (case walletAddress prov privateKey of
        None \<Rightarrow> Inl (Error ''invalid private key'')
      | Some sender \<Rightarrow>
          (case (if falsy (tx_nonce tx)
                 then map_option (\<lambda>n. tx\<lparr>tx_nonce := Some n\<rparr>) (getTransactionCount prov sender)
                 else Some tx) of
             None \<Rightarrow> Inl (Error ''getTransactionCount'')
           | Some tx1 \<Rightarrow>
               (case (if falsy (tx_gasLimit tx1)
                      then map_option (\<lambda>g. tx1\<lparr>tx_gasLimit := Some g\<rparr>)
                             (estimateGas prov tx1 sender)
                      else Some tx1) of
                  None \<Rightarrow> Inl (Error ''estimateGas'')
                | Some tx2 \<Rightarrow>
                    (case (if falsy (tx_gasPrice tx2) \<and> falsy (tx_maxFeePerGas tx2)
                           then map_option (\<lambda>p. tx2\<lparr>tx_gasPrice := p\<rparr>) (feeDataGasPrice prov)
                           else Some tx2) of
                       None \<Rightarrow> Inl (Error ''getFeeData'')
                     | Some tx3 \<Rightarrow>
                         (case sendTransaction prov privateKey tx3 of
                            None \<Rightarrow> Inl (Error ''sendTransaction'')
                          | Some hash \<Rightarrow> Inr (hash, tx3))))))"

definition cancelTransaction ::
  "provider \<Rightarrow> jsstring \<Rightarrow> nat \<Rightarrow> jsstring \<Rightarrow> js_error + jsstring \<times> TransactionRequest" where
  "cancelTransaction prov privateKey nonce gasPrice =
     (case walletAddress prov privateKey of
        None \<Rightarrow> Inl (Error ''invalid private key'')
      | Some addr \<Rightarrow>
          (case parseGwei prov gasPrice of
             None \<Rightarrow> Inl (Error ''parseUnits'')
           | Some g \<Rightarrow>
               signAndSend prov privateKey
                 \<lparr>tx_to = Some addr, tx_value = Some 0, tx_data = None, tx_nonce = Some nonce,
                  tx_gasLimit = Some 21000, tx_gasPrice = Some g, tx_maxFeePerGas = None,
                  tx_chainId = Some (currentChainId prov)\<rparr>))"

definition speedUpTransaction ::
  "provider \<Rightarrow> jsstring \<Rightarrow> TransactionRequest \<Rightarrow> jsstring
   \<Rightarrow> js_error + jsstring \<times> TransactionRequest" where
  "speedUpTransaction prov privateKey originalTx newGasPrice =
     (case parseGwei prov newGasPrice of
        None \<Rightarrow> Inl (Error ''parseUnits'')
      | Some g \<Rightarrow> signAndSend prov privateKey (originalTx\<lparr>tx_gasPrice := Some g\<rparr>))"

section \<open>RequestHandler\<close>

record WCPeerMetadata =
  pm_name :: jsstring
  pm_description :: jsstring
  pm_url :: jsstring
  pm_icons :: "jsstring list"

record WCSignRequest =
  req_id :: nat
  req_topic :: jsstring
  req_method :: jsstring
  req_params :: "json list"
  req_chainId :: nat
  peerMetadata :: WCPeerMetadata













section \<open>Notions used in the statements\<close>

text \<open>
  A string is well formed when every surrogate in it is half of a pair; \<open>plain\<close> code
  units are those that are not surrogates.
\<close>

fun well_formed :: "jsstring \<Rightarrow> bool" where
  "well_formed [] = True"
| "well_formed [u] = (\<not> is_lead u \<and> \<not> is_trail u)"
| "well_formed (u # v # us) =
     (if is_lead u then is_trail v \<and> well_formed us
      else \<not> is_trail u \<and> well_formed (v # us))"

definition plain :: "jschar \<Rightarrow> bool" where
  "plain u = (\<not> is_lead u \<and> \<not> is_trail u)"


section \<open>Example inputs\<close>

text \<open>
  The mnemonic of the Hardhat development network with its first account, and the
  address of its second account.
\<close>

definition test_phrase :: jsstring where
  "test_phrase = js ''test test test test test test test test test test test junk''"

definition account0 :: jsstring where
  "account0 = js ''0xf39Fd6e51aad88F6F4ce6aB8827279cffFb92266''"

definition account0_key :: jsstring where
  "account0_key = js ''0xac0974bec39a17e36ba4a6b4d238ff944bacb478cbed5efcae784d7bf4f2ff80''"

definition account1 :: jsstring where
  "account1 = js ''0x70997970C51812dc3A010C7d01b50e0d17dc79C8''"


definition empty_device :: device where
  "empty_device =
     \<lparr>internetCredentials = Map.empty, genericPassword = Map.empty, mnemonicItem = None,
      walletListItem = None\<rparr>"



text \<open>
  An environment in which every storage call succeeds except the write of the mnemonic
  item.
\<close>

definition mnemonic_write_fails :: wallet_env where
  "mnemonic_write_fails =
     \<lparr>env_faults = (\<lambda>c. c = ES_setItem MNEMONIC_KEY), env_now = 1700000000000,
      env_entropyPhrase = test_phrase,
      env_validPhrase = (\<lambda>p. True),
      env_derive = (\<lambda>p i. (account0, account0_key)),
      env_mnemonicSalt = js ''0x12345678'', env_keySalt = js ''0x9abcdef0''\<rparr>"

text \<open>
  A provider for an account whose transaction with nonce 0 is still pending, so that
  its pending transaction count is 1.
\<close>

definition one_pending :: provider where
  "one_pending =
     \<lparr>walletAddress = (\<lambda>k. Some account0),
      getTransactionCount = (\<lambda>a. Some 1),
      estimateGas = (\<lambda>t a. Some 21000),
      feeDataGasPrice = Some (Some 1000000000),
      sendTransaction = (\<lambda>k t. Some (js ''0x5c504ed432cb51138bcf09aa5e8a410dd4a1e204ef84bfed1be16dfba1b22060'')),
      currentChainId = 1,
      parseGwei = (\<lambda>g. Some 2000000000)\<rparr>"

section \<open>Lemmas on words\<close>

lemma unat_to_byte: "n < 256 \<Longrightarrow> unat (to_byte n) = n"
  by (simp add: to_byte_def unat_of_nat)

lemma unat_to_unit: "n < 65536 \<Longrightarrow> unat (to_unit n) = n"
  by (simp add: to_unit_def unat_of_nat)

lemma to_byte_unat: "to_byte (unat b) = b"
  by (simp add: to_byte_def)

lemma to_unit_unat: "to_unit (unat u) = u"
  by (simp add: to_unit_def)

lemma unat_byte_less: "unat (b :: byte) < 256"
  using unsigned_less [of b, where 'a = nat] by simp

lemma unat_jschar_less: "unat (u :: jschar) < 65536"
  using unsigned_less [of u, where 'a = nat] by simp

lemma div_mod_pack:
  fixes h l k :: nat
  assumes "l < k"
  shows "(h * k + l) div k = h" "(h * k + l) mod k = l"
  using assms by simp_all

section \<open>Base64 decoding inverts encoding\<close>

lemma unat_base64_char:
  "d < 64 \<Longrightarrow> unat (base64_char d) =
     (if d < 26 then 65 + d else if d < 52 then 71 + d else if d < 62 then d - 4
      else if d = 62 then 0x2B else 0x2F)"
  unfolding base64_char_def by (rule unat_to_unit) auto

lemma base64_value_char: "d < 64 \<Longrightarrow> base64_value (base64_char d) = Some d"
  unfolding base64_value_def Let_def by (simp only: unat_base64_char) auto

lemma base64_char_not_pad: "d < 64 \<Longrightarrow> base64_char d \<noteq> 0x3D"
proof
  assume d: "d < 64" and "base64_char d = 0x3D"
  then have "unat (base64_char d) = 61" by simp
  with d show False by (simp only: unat_base64_char split: if_splits)
qed

lemma sextet_bounds:
  fixes a b c :: byte
  shows "unat a div 4 < 64" "unat a mod 4 * 16 + unat b div 16 < 64"
    "unat b mod 16 * 4 + unat c div 64 < 64" "unat c mod 64 < 64"
    "unat a mod 4 * 16 < 64" "unat b mod 16 * 4 < 64"
  using unat_byte_less [of a] unat_byte_less [of b] unat_byte_less [of c] by arith+

lemma takeWhile_base64_char:
  "d < 64 \<Longrightarrow> takeWhile (\<lambda>c. c \<noteq> 0x3D) (base64_char d # xs)
     = base64_char d # takeWhile (\<lambda>c. c \<noteq> 0x3D) xs"
  by (simp add: base64_char_not_pad)

lemma map_filter_base64_char:
  "d < 64 \<Longrightarrow> List.map_filter base64_value (base64_char d # xs)
     = d # List.map_filter base64_value xs"
  by (simp add: List.map_filter_def base64_value_char)

lemma takeWhile_pad: "takeWhile (\<lambda>c. c \<noteq> (0x3D :: jschar)) (0x3D # xs) = []"
  by simp

lemma map_filter_Nil: "List.map_filter f [] = []"
  by (simp add: List.map_filter_def)

lemma decode_sextets_1:
  fixes a :: byte
  shows "decode_sextets [unat a div 4, unat a mod 4 * 16] = [a]"
proof -
  have 1: "unat a div 4 * 4 + unat a mod 4 * 16 div 16 = unat a" by simp
  show ?thesis by (simp only: decode_sextets.simps 1 to_byte_unat)
qed

lemma decode_sextets_2:
  fixes a b :: byte
  shows "decode_sextets [unat a div 4, unat a mod 4 * 16 + unat b div 16, unat b mod 16 * 4]
         = [a, b]"
proof -
  have bh: "unat b div 16 < 16" using unat_byte_less [of b] by simp
  have 1: "unat a div 4 * 4 + (unat a mod 4 * 16 + unat b div 16) div 16 = unat a"
    by (simp only: div_mod_pack [OF bh]) simp
  have 2: "(unat a mod 4 * 16 + unat b div 16) mod 16 * 16 + unat b mod 16 * 4 div 4 = unat b"
    by (simp only: div_mod_pack [OF bh]) simp
  show ?thesis by (simp only: decode_sextets.simps 1 2 to_byte_unat)
qed

lemma decode_sextets_3:
  fixes a b c :: byte
  shows "decode_sextets (unat a div 4 # (unat a mod 4 * 16 + unat b div 16)
           # (unat b mod 16 * 4 + unat c div 64) # unat c mod 64 # rest)
         = a # b # c # decode_sextets rest"
proof -
  have bh: "unat b div 16 < 16" using unat_byte_less [of b] by simp
  have ch: "unat c div 64 < 4" using unat_byte_less [of c] by simp
  have 1: "unat a div 4 * 4 + (unat a mod 4 * 16 + unat b div 16) div 16 = unat a"
    by (simp only: div_mod_pack [OF bh]) simp
  have 2: "(unat a mod 4 * 16 + unat b div 16) mod 16 * 16
           + (unat b mod 16 * 4 + unat c div 64) div 4 = unat b"
    by (simp only: div_mod_pack [OF bh] div_mod_pack [OF ch]) simp
  have 3: "(unat b mod 16 * 4 + unat c div 64) mod 4 * 64 + unat c mod 64 = unat c"
    by (simp only: div_mod_pack [OF ch]) simp
  show ?thesis
    by (simp only: decode_sextets.simps 1 2 3 to_byte_unat append_Cons append_Nil)
qed

lemma base64_decode_encode: "base64_decode (base64_encode bs) = bs"
proof -
  have "decode_sextets (List.map_filter base64_value
          (takeWhile (\<lambda>c. c \<noteq> 0x3D) (base64_encode bs))) = bs"
  proof (induction bs rule: base64_encode.induct)
    case 1
    show ?case by (simp add: List.map_filter_def)
  next
    case (2 a)
    show ?case
      by (simp only: base64_encode.simps takeWhile_base64_char map_filter_base64_char
          sextet_bounds takeWhile_pad map_filter_Nil decode_sextets_1)
  next
    case (3 a b)
    show ?case
      by (simp only: base64_encode.simps takeWhile_base64_char map_filter_base64_char
          sextet_bounds takeWhile_pad map_filter_Nil decode_sextets_2)
  next
    case (4 a b c bs)
    show ?case
      by (simp only: base64_encode.simps append_Cons append_Nil takeWhile_base64_char
          map_filter_base64_char sextet_bounds decode_sextets_3 4)
  qed
  then show ?thesis by (simp add: base64_decode_def)
qed

section \<open>UTF-8 decoding inverts encoding\<close>

lemma decode_sequence_1: "cp < 0x80 \<Longrightarrow> decode_sequence cp xs = Some (cp, 1)"
  by (simp add: decode_sequence_def)

lemma continuation:
  fixes l :: nat
  assumes "l < 64"
  shows "(l + 128) div 64 = 2" "(l + 128) mod 64 = l" "l + 128 < 256"
  using div_mod_pack [OF assms, of 2] assms by (simp_all add: add.commute)

lemma lead_byte_mod:
  fixes h :: nat
  shows "h < 32 \<Longrightarrow> (h + 192) mod 32 = h" "h < 16 \<Longrightarrow> (h + 224) mod 16 = h"
    "h < 16 \<Longrightarrow> (h + 240) mod 16 = h"
  using div_mod_pack(2) [of h 32 6] div_mod_pack(2) [of h 16 14] div_mod_pack(2) [of h 16 15]
  by (simp_all add: add.commute)

lemma decode_sequence_2:
  assumes "l < 64" "2 \<le> h" "h < 32"
  shows "decode_sequence (h + 192) ((l + 128) # xs) = Some (h * 64 + l, 2)"
proof -
  have "(h + 192) mod 32 = h" using assms by (simp add: lead_byte_mod)
  moreover have "\<not> h + 192 > 0xEF" "\<not> h + 192 > 0xDF" "h + 192 > 0xBF"
    using assms by simp_all
  moreover have "h * 64 + l > 0x7F" using assms by linarith
  ultimately show ?thesis
    by (simp add: decode_sequence_def continuation [OF assms(1)])
qed

lemma decode_sequence_3:
  assumes "l < 64" "h < 64" "t < 16" "t * 4096 + h * 64 + l > 0x7FF"
    "t * 4096 + h * 64 + l < 0xD800 \<or> t * 4096 + h * 64 + l > 0xDFFF"
  shows "decode_sequence (t + 224) ((h + 128) # (l + 128) # xs)
         = Some (t * 4096 + h * 64 + l, 3)"
proof -
  have "(t + 224) mod 16 = t" using assms by (simp add: lead_byte_mod)
  moreover have "\<not> t + 224 > 0xEF" "t + 224 > 0xDF" using assms by simp_all
  ultimately show ?thesis
    using assms(4,5)
    by (simp add: decode_sequence_def continuation [OF assms(1)] continuation [OF assms(2)])
qed

lemma decode_sequence_4:
  assumes "l < 64" "h < 64" "t < 64" "q < 8"
    "q * 262144 + t * 4096 + h * 64 + l > 0xFFFF"
    "q * 262144 + t * 4096 + h * 64 + l < 0x110000"
  shows "decode_sequence (q + 240) ((t + 128) # (h + 128) # (l + 128) # xs)
         = Some (q * 262144 + t * 4096 + h * 64 + l, 4)"
proof -
  have "(q + 240) mod 16 = q" using assms by (simp add: lead_byte_mod)
  moreover have "q + 240 > 0xEF" using assms by simp
  ultimately show ?thesis
    using assms(5,6)
    by (simp add: decode_sequence_def continuation [OF assms(1)] continuation [OF assms(2)]
        continuation [OF assms(3)])
qed


lemma utf8Slice_1:
  assumes "cp < 0x80"
  shows "utf8Slice (to_byte cp # rest) = units_of_code_point cp @ utf8Slice rest"
proof -
  have "unat (to_byte cp) = cp" using assms by (simp add: unat_to_byte)
  then show ?thesis using assms by (simp add: decode_sequence_1)
qed

lemma utf8Slice_2:
  assumes "l < 64" "2 \<le> h" "h < 32"
  shows "utf8Slice (to_byte (h + 192) # to_byte (l + 128) # rest)
         = units_of_code_point (h * 64 + l) @ utf8Slice rest"
proof -
  have "unat (to_byte (h + 192)) = h + 192" "unat (to_byte (l + 128)) = l + 128"
    using assms by (simp_all add: unat_to_byte)
  then show ?thesis by (simp add: decode_sequence_2 [OF assms])
qed

lemma utf8Slice_3:
  assumes "l < 64" "h < 64" "t < 16" "t * 4096 + h * 64 + l > 0x7FF"
    "t * 4096 + h * 64 + l < 0xD800 \<or> t * 4096 + h * 64 + l > 0xDFFF"
  shows "utf8Slice (to_byte (t + 224) # to_byte (h + 128) # to_byte (l + 128) # rest)
         = units_of_code_point (t * 4096 + h * 64 + l) @ utf8Slice rest"
proof -
  have "unat (to_byte (t + 224)) = t + 224" "unat (to_byte (h + 128)) = h + 128"
    "unat (to_byte (l + 128)) = l + 128"
    using assms by (simp_all add: unat_to_byte)
  then show ?thesis by (simp add: decode_sequence_3 [OF assms])
qed

lemma utf8Slice_4:
  assumes "l < 64" "h < 64" "t < 64" "q < 8"
    "q * 262144 + t * 4096 + h * 64 + l > 0xFFFF"
    "q * 262144 + t * 4096 + h * 64 + l < 0x110000"
  shows "utf8Slice (to_byte (q + 240) # to_byte (t + 128) # to_byte (h + 128)
           # to_byte (l + 128) # rest)
         = units_of_code_point (q * 262144 + t * 4096 + h * 64 + l) @ utf8Slice rest"
proof -
  have "unat (to_byte (q + 240)) = q + 240" "unat (to_byte (t + 128)) = t + 128"
    "unat (to_byte (h + 128)) = h + 128" "unat (to_byte (l + 128)) = l + 128"
    using assms by (simp_all add: unat_to_byte)
  then show ?thesis by (simp add: decode_sequence_4 [OF assms])
qed

lemma digits_2: "(cp::nat) = cp div 64 * 64 + cp mod 64"
  by simp

lemma shift_digit:
  fixes x k m :: nat
  shows "x div k * (k * m) + x mod k * m = x * m"
proof -
  define A B where "A = x div k" and "B = x mod k"
  have x: "x = A * k + B" by (simp add: A_def B_def)
  have "A * (k * m) + B * m = x * m" by (simp add: x algebra_simps)
  then show ?thesis by (simp only: A_def B_def)
qed

lemma digits_3: "(cp::nat) = cp div 4096 * 4096 + cp div 64 mod 64 * 64 + cp mod 64"
proof -
  have "cp div 4096 = cp div 64 div 64" by (simp add: div_mult2_eq [symmetric])
  moreover have "cp div 64 div 64 * (64 * 64) + cp div 64 mod 64 * 64 = cp div 64 * 64"
    by (rule shift_digit)
  ultimately have "cp div 4096 * 4096 + cp div 64 mod 64 * 64 = cp div 64 * 64" by simp
  then show ?thesis by simp
qed

lemma digits_4:
  "(cp::nat) = cp div 262144 * 262144 + cp div 4096 mod 64 * 4096 + cp div 64 mod 64 * 64
             + cp mod 64"
proof -
  have "cp div 262144 = cp div 4096 div 64" by (simp add: div_mult2_eq [symmetric])
  moreover have "cp div 4096 div 64 * (64 * 4096) + cp div 4096 mod 64 * 4096
                 = cp div 4096 * 4096"
    by (rule shift_digit)
  ultimately have "cp div 262144 * 262144 + cp div 4096 mod 64 * 4096 = cp div 4096 * 4096"
    by simp
  then show ?thesis using digits_3 [of cp] by simp
qed

lemma utf8Slice_encode_code_point:
  assumes "cp < 0xD800 \<or> 0xDFFF < cp" "cp < 0x110000"
  shows "utf8Slice (encode_code_point cp @ rest) = units_of_code_point cp @ utf8Slice rest"
proof -
  consider "cp < 0x80" | "0x80 \<le> cp" "cp < 0x800" | "0x800 \<le> cp" "cp < 0x10000"
    | "0x10000 \<le> cp"
    by linarith
  then show ?thesis
  proof cases
    case 1
    then show ?thesis by (simp add: encode_code_point_def utf8Slice_1 del: utf8Slice.simps)
  next
    case 2
    have "cp mod 64 < 64" "2 \<le> cp div 64" "cp div 64 < 32" using 2 by simp_all
    from utf8Slice_2 [OF this, of rest] 2 show ?thesis
      by (simp add: encode_code_point_def del: utf8Slice.simps)
  next
    case 3
    have d: "cp mod 64 < 64" "cp div 64 mod 64 < 64" "cp div 4096 < 16" using 3 by simp_all
    have v: "cp div 4096 * 4096 + cp div 64 mod 64 * 64 + cp mod 64 > 0x7FF"
      "cp div 4096 * 4096 + cp div 64 mod 64 * 64 + cp mod 64 < 0xD800
       \<or> cp div 4096 * 4096 + cp div 64 mod 64 * 64 + cp mod 64 > 0xDFFF"
      using 3 assms(1) by (simp_all only: digits_3 [symmetric])
    have "utf8Slice (to_byte (cp div 4096 + 224) # to_byte (cp div 64 mod 64 + 128)
            # to_byte (cp mod 64 + 128) # rest) = units_of_code_point cp @ utf8Slice rest"
      using utf8Slice_3 [OF d v, of rest] by (simp only: digits_3 [symmetric])
    then show ?thesis using 3 by (simp add: encode_code_point_def del: utf8Slice.simps)
  next
    case 4
    have d: "cp mod 64 < 64" "cp div 64 mod 64 < 64" "cp div 4096 mod 64 < 64"
      "cp div 262144 < 8"
      using 4 assms(2) by simp_all
    have v: "cp div 262144 * 262144 + cp div 4096 mod 64 * 4096 + cp div 64 mod 64 * 64
             + cp mod 64 > 0xFFFF"
      "cp div 262144 * 262144 + cp div 4096 mod 64 * 4096 + cp div 64 mod 64 * 64
             + cp mod 64 < 0x110000"
      using 4 assms(2) by (simp_all only: digits_4 [symmetric])
    have "utf8Slice (to_byte (cp div 262144 + 240) # to_byte (cp div 4096 mod 64 + 128)
            # to_byte (cp div 64 mod 64 + 128) # to_byte (cp mod 64 + 128) # rest)
          = units_of_code_point cp @ utf8Slice rest"
      using utf8Slice_4 [OF d v, of rest] by (simp only: digits_4 [symmetric])
    then show ?thesis using 4 by (simp add: encode_code_point_def del: utf8Slice.simps)
  qed
qed

lemma is_lead_nat: "is_lead u \<longleftrightarrow> 0xD800 \<le> unat u \<and> unat u \<le> 0xDBFF"
  by (simp add: is_lead_def word_le_nat_alt)

lemma is_trail_nat: "is_trail u \<longleftrightarrow> 0xDC00 \<le> unat u \<and> unat u \<le> 0xDFFF"
  by (simp add: is_trail_def word_le_nat_alt)

lemma utf8Slice_unit:
  assumes "\<not> is_lead u" "\<not> is_trail u"
  shows "utf8Slice (encode_code_point (unat u) @ rest) = u # utf8Slice rest"
proof -
  have "unat u < 0xD800 \<or> 0xDFFF < unat u"
    using assms by (auto simp: is_lead_nat is_trail_nat)
  moreover have "unat u < 0x110000" using unat_jschar_less [of u] by simp
  ultimately have "utf8Slice (encode_code_point (unat u) @ rest)
                   = units_of_code_point (unat u) @ utf8Slice rest"
    by (rule utf8Slice_encode_code_point)
  moreover have "units_of_code_point (unat u) = [u]"
    using unat_jschar_less [of u] by (simp add: units_of_code_point_def to_unit_unat)
  ultimately show ?thesis by simp
qed

lemma units_of_pair:
  assumes "is_lead u" "is_trail v"
  shows "units_of_code_point (pair_code_point u v) = [u, v]"
proof -
  define U V where "U = unat u - 0xD800" and "V = unat v - 0xDC00"
  have uv: "unat u = U + 0xD800" "unat v = V + 0xDC00" "V < 1024"
    using assms by (auto simp: is_lead_nat is_trail_nat U_def V_def)
  have p: "pair_code_point u v = U * 1024 + V + 0x10000"
    by (simp add: pair_code_point_def U_def V_def)
  have "(U * 1024 + V) div 1024 = U" "(U * 1024 + V) mod 1024 = V"
    using uv(3) by (rule div_mod_pack)+
  then have "units_of_code_point (pair_code_point u v)
             = [to_unit (U + 0xD800), to_unit (V + 0xDC00)]"
    by (simp add: p units_of_code_point_def)
  then show ?thesis by (simp only: uv(1,2) [symmetric] to_unit_unat)
qed

lemma utf8Slice_pair:
  assumes "is_lead u" "is_trail v"
  shows "utf8Slice (encode_code_point (pair_code_point u v) @ rest) = u # v # utf8Slice rest"
proof -
  have "unat u - 0xD800 < 1024" "unat v - 0xDC00 < 1024"
    using assms by (auto simp: is_lead_nat is_trail_nat)
  then have "(unat u - 0xD800) * 1024 + (unat v - 0xDC00) < 1024 * 1024"
    by linarith
  then have "0xDFFF < pair_code_point u v" "pair_code_point u v < 0x110000"
    by (simp_all add: pair_code_point_def)
  then have "utf8Slice (encode_code_point (pair_code_point u v) @ rest)
             = units_of_code_point (pair_code_point u v) @ utf8Slice rest"
    by (intro utf8Slice_encode_code_point) simp_all
  then show ?thesis by (simp add: units_of_pair [OF assms])
qed

lemma trail_not_lead: "is_trail v \<Longrightarrow> \<not> is_lead v"
  by (simp add: is_lead_nat is_trail_nat)

lemma utf8Slice_utf8ToBytes_from:
  "well_formed s \<Longrightarrow> utf8Slice (utf8ToBytes_from None s) = s"
proof (induction s rule: well_formed.induct)
  case 1
  show ?case by simp
next
  case (2 u)
  then have u: "\<not> is_lead u" "\<not> is_trail u" by simp_all
  then have "utf8ToBytes_from None [u] = encode_code_point (unat u) @ []" by simp
  then show ?case using utf8Slice_unit [OF u, of "[]"] by (simp only: utf8Slice.simps)
next
  case (3 u v us)
  show ?case
  proof (cases "is_lead u")
    case True
    with "3.prems" have v: "is_trail v" and wf: "well_formed us" by simp_all
    have "utf8ToBytes_from None (u # v # us)
          = encode_code_point (pair_code_point u v) @ utf8ToBytes_from None us"
      using True v trail_not_lead [OF v] trail_not_lead [of u] by auto
    with "3.IH"(1) [OF True wf] show ?thesis
      by (simp only: utf8Slice_pair [OF True v])
  next
    case False
    with "3.prems" have u: "\<not> is_trail u" and wf: "well_formed (v # us)" by simp_all
    have "utf8ToBytes_from None (u # v # us)
          = encode_code_point (unat u) @ utf8ToBytes_from None (v # us)"
      using False u by simp
    with "3.IH"(2) [OF False wf] show ?thesis
      by (simp only: utf8Slice_unit [OF False u])
  qed
qed

lemma utf8Slice_utf8ToBytes: "well_formed s \<Longrightarrow> utf8Slice (utf8ToBytes s) = s"
  by (simp only: utf8ToBytes_def utf8Slice_utf8ToBytes_from)

section \<open>Quoted strings\<close>

lemma plain_ascii: "unat u < 0x80 \<Longrightarrow> plain u"
  by (simp add: plain_def is_lead_nat is_trail_nat)

lemma well_formed_Cons_plain: "plain x \<Longrightarrow> well_formed (x # xs) = well_formed xs"
  by (cases xs) (simp_all add: plain_def)

lemma well_formed_append_plain: "\<forall>x\<in>set a. plain x \<Longrightarrow> well_formed (a @ b) = well_formed b"
  by (induction a) (simp_all add: well_formed_Cons_plain)

lemma unat_hex_digit: "d < 16 \<Longrightarrow> unat (hex_digit d) = (if d < 10 then 48 + d else 87 + d)"
  unfolding hex_digit_def by (rule unat_to_unit) auto

lemma plain_hex_digit: "d < 16 \<Longrightarrow> plain (hex_digit d)"
  by (rule plain_ascii) (simp add: unat_hex_digit)

lemma nibble_bounds:
  fixes u :: jschar
  shows "unat u div 4096 < 16" "unat u div 256 mod 16 < 16" "unat u div 16 mod 16 < 16"
    "unat u mod 16 < 16"
  using unat_jschar_less [of u] by simp_all

lemma plain_unicode_escape: "\<forall>x\<in>set (unicode_escape u). plain x"
  by (simp add: unicode_escape_def plain_hex_digit nibble_bounds)
     (simp add: plain_def is_lead_def is_trail_def)

lemma plain_escapes:
  "plain 0x5C" "plain 0x22" "plain 0x62" "plain 0x74" "plain 0x6E" "plain 0x66" "plain 0x72"
  by (simp_all add: plain_def is_lead_def is_trail_def)

lemma plain_quote_unit: "\<forall>x\<in>set (quote_unit u). plain x"
proof (cases "u < 0x20 \<or> is_lead u \<or> is_trail u")
  case True
  show ?thesis
    unfolding quote_unit_def using True plain_unicode_escape [of u]
    by (simp add: plain_escapes)
next
  case False
  have "plain u" using False by (simp add: plain_def)
  then show ?thesis
    unfolding quote_unit_def using False by (simp add: plain_escapes)
qed

lemma well_formed_quote_units: "well_formed (quote_units s @ rest) = well_formed rest"
proof (induction s rule: quote_units.induct)
  case 1
  show ?case by simp
next
  case (2 u)
  show ?case using plain_quote_unit [of u] by (simp add: well_formed_append_plain)
next
  case (3 u v us)
  show ?case
  proof (cases "is_lead u \<and> is_trail v")
    case True
    with "3.IH"(1) show ?thesis by simp
  next
    case False
    have "quote_units (u # v # us) = quote_unit u @ quote_units (v # us)"
      by (simp only: quote_units.simps False if_False)
    with "3.IH"(2) [OF False] plain_quote_unit [of u] show ?thesis
      by (simp add: well_formed_append_plain del: quote_units.simps)
  qed
qed

lemma hex_value_hex_digit: "d < 16 \<Longrightarrow> hex_value (hex_digit d) = Some d"
  unfolding hex_value_def Let_def by (simp only: unat_hex_digit) auto

lemma nibbles:
  "(n::nat) = n div 4096 * 4096 + n div 256 mod 16 * 256 + n div 16 mod 16 * 16 + n mod 16"
proof -
  have "n div 256 = n div 16 div 16" "n div 4096 = n div 256 div 16"
    by (simp_all add: div_mult2_eq [symmetric])
  moreover have "n div 256 div 16 * (16 * 256) + n div 256 mod 16 * 256 = n div 256 * 256"
    by (rule shift_digit)
  moreover have "n div 16 div 16 * (16 * 16) + n div 16 mod 16 * 16 = n div 16 * 16"
    by (rule shift_digit)
  ultimately have "n div 4096 * 4096 + n div 256 mod 16 * 256 + n div 16 mod 16 * 16
                   = n div 16 * 16"
    by simp
  then show ?thesis by simp
qed

lemma hex4_value_escape:
  "hex4_value (hex_digit (unat u div 4096)) (hex_digit (unat u div 256 mod 16))
     (hex_digit (unat u div 16 mod 16)) (hex_digit (unat u mod 16)) = Some u"
  unfolding hex4_value_def
  by (simp only: hex_value_hex_digit nibble_bounds prod.case option.case nibbles [symmetric]
      to_unit_unat)

lemma parse_unicode_escape:
  "parse_string_chars (unicode_escape u @ xs) = prepend u (parse_string_chars xs)"
  by (simp add: unicode_escape_def hex4_value_escape)

lemma parse_quote_unit:
  "parse_string_chars (quote_unit u @ xs) = prepend u (parse_string_chars xs)"
proof (cases "u = 0x08 \<or> u = 0x09 \<or> u = 0x0A \<or> u = 0x0C \<or> u = 0x0D \<or> u = 0x22 \<or> u = 0x5C")
  case True
  then show ?thesis by (auto simp: quote_unit_def simple_escape_def)
next
  case False
  show ?thesis
  proof (cases "u < 0x20 \<or> is_lead u \<or> is_trail u")
    case True
    with False have "quote_unit u = unicode_escape u" by (simp add: quote_unit_def)
    then show ?thesis by (simp only: parse_unicode_escape)
  next
    case True': False
    with False have "quote_unit u = [u]" by (simp add: quote_unit_def)
    with False True' show ?thesis by simp
  qed
qed

lemma lead_not_special:
  assumes "is_lead u \<or> is_trail u"
  shows "u \<noteq> 0x22" "u \<noteq> 0x5C" "\<not> u < 0x20"
  using assms by (auto simp: is_lead_nat is_trail_nat word_less_nat_alt)

lemma parse_quote_units:
  "parse_string_chars (quote_units s @ 0x22 # rest) = Some (s, rest)"
proof (induction s rule: quote_units.induct)
  case 1
  show ?case by simp
next
  case (2 u)
  show ?case by (simp add: parse_quote_unit prepend_def)
next
  case (3 u v us)
  show ?case
  proof (cases "is_lead u \<and> is_trail v")
    case True
    with "3.IH"(1) lead_not_special [of u] lead_not_special [of v] show ?thesis
      by (simp add: prepend_def)
  next
    case False
    have "quote_units (u # v # us) = quote_unit u @ quote_units (v # us)"
      by (simp only: quote_units.simps False if_False)
    with "3.IH"(2) [OF False] show ?thesis
      by (simp add: parse_quote_unit prepend_def del: quote_units.simps)
  qed
qed

lemma parse_quote: "parse_string_chars (quote_units s @ [0x22] @ rest) = Some (s, rest)"
  using parse_quote_units [of s rest] by simp

section \<open>The object written by \<open>encrypt\<close>\<close>

lemma stringify_data_salt_chars:
  "stringify_data_salt d s =
     [0x7B, 0x22, 0x64, 0x61, 0x74, 0x61, 0x22, 0x3A, 0x22] @ quote_units d
     @ [0x22, 0x2C, 0x22, 0x73, 0x61, 0x6C, 0x74, 0x22, 0x3A, 0x22] @ quote_units s
     @ [0x22, 0x7D]"
  by (simp add: stringify_data_salt_def quote_def js_def quote_unit_def is_lead_def
      is_trail_def)

lemma skip_ws_plain: "\<not> is_ws c \<Longrightarrow> skip_ws (c # cs) = c # cs"
  by (simp add: skip_ws_def)

lemma not_ws: "\<not> is_ws 0x22" "\<not> is_ws 0x7B" "\<not> is_ws 0x7D" "\<not> is_ws 0x3A" "\<not> is_ws 0x2C"
  by (simp_all add: is_ws_def)

lemma parse_key_data:
  "parse_string_chars (0x64 # 0x61 # 0x74 # 0x61 # 0x22 # rest) = Some (js ''data'', rest)"
  by (simp add: prepend_def js_def)

lemma parse_key_salt:
  "parse_string_chars (0x73 # 0x61 # 0x6C # 0x74 # 0x22 # rest) = Some (js ''salt'', rest)"
  by (simp add: prepend_def js_def)

lemma parse_value_string:
  "parse_value (Suc n) (0x22 # quote_units s @ 0x22 # rest) = Some (JStr s, rest)"
  by (simp add: skip_ws_plain not_ws parse_quote_units with_value_def
      del: parse_string_chars.simps)

lemma parse_members_salt:
  "parse_members (Suc (Suc n))
     (0x22 # 0x73 # 0x61 # 0x6C # 0x74 # 0x22 # 0x3A # 0x22 # quote_units s @ [0x22, 0x7D])
   = Some ([(js ''salt'', JStr s)], [])"
proof -
  have "parse_value (Suc n) (0x22 # quote_units s @ 0x22 # [0x7D]) = Some (JStr s, [0x7D])"
    by (rule parse_value_string)
  then show ?thesis
    by (simp add: skip_ws_plain not_ws parse_key_salt
        del: parse_string_chars.simps parse_value.simps)
qed

lemma parse_members_data_salt:
  "parse_members (Suc (Suc (Suc n)))
     (0x22 # 0x64 # 0x61 # 0x74 # 0x61 # 0x22 # 0x3A # 0x22 # quote_units d
      @ [0x22, 0x2C, 0x22, 0x73, 0x61, 0x6C, 0x74, 0x22, 0x3A, 0x22] @ quote_units s
      @ [0x22, 0x7D])
   = Some ([(js ''data'', JStr d), (js ''salt'', JStr s)], [])"
proof -
  let ?tail = "0x22 # 0x73 # 0x61 # 0x6C # 0x74 # 0x22 # 0x3A # 0x22 # quote_units s
               @ [0x22, 0x7D]"
  have "parse_value (Suc (Suc n)) (0x22 # quote_units d @ 0x22 # 0x2C # ?tail)
        = Some (JStr d, 0x2C # ?tail)"
    by (rule parse_value_string)
  then show ?thesis
    using parse_members_salt [of n s]
    by (simp add: skip_ws_plain not_ws parse_key_data with_value_def
        del: parse_string_chars.simps parse_value.simps parse_members.simps(2))
       (simp add: skip_ws_plain not_ws parse_key_data with_value_def
        del: parse_string_chars.simps parse_value.simps)
qed

lemma parse_value_data_salt:
  "parse_value (Suc (Suc (Suc (Suc n)))) (stringify_data_salt d s)
   = Some (JObj [(js ''data'', JStr d), (js ''salt'', JStr s)], [])"
  using parse_members_data_salt [of n d s]
  by (simp add: stringify_data_salt_chars skip_ws_plain not_ws with_value_def
      del: parse_members.simps parse_string_chars.simps)

lemma JSON_parse_stringify:
  "JSON_parse (stringify_data_salt d s) = Some (JObj [(js ''data'', JStr d), (js ''salt'', JStr s)])"
proof -
  have "1 \<le> length (stringify_data_salt d s)" by (simp add: stringify_data_salt_chars)
  then have "2 * length (stringify_data_salt d s) + 2
             = Suc (Suc (Suc (Suc (2 * length (stringify_data_salt d s) - 2))))"
    by linarith
  then show ?thesis
    by (simp only: JSON_parse_def parse_value_data_salt) (simp add: skip_ws_def)
qed

lemma well_formed_stringify: "well_formed (stringify_data_salt d s)"
proof -
  have p: "\<forall>x\<in>set [0x7B, 0x22, 0x64, 0x61, 0x74, 0x61, 0x22, 0x3A, 0x22 :: jschar]. plain x"
    "\<forall>x\<in>set [0x22, 0x2C, 0x22, 0x73, 0x61, 0x6C, 0x74, 0x22, 0x3A, 0x22 :: jschar]. plain x"
    "\<forall>x\<in>set [0x22, 0x7D :: jschar]. plain x"
    by (simp_all add: plain_def is_lead_def is_trail_def)
  have "well_formed ([0x22, 0x7D :: jschar] @ [])" 
    by (simp only: well_formed_append_plain [OF p(3)] well_formed.simps)
  then show ?thesis
    by (simp only: stringify_data_salt_chars well_formed_append_plain [OF p(1)]
        well_formed_append_plain [OF p(2)] well_formed_quote_units append_Nil2)
qed

section \<open>Decryption returns what was encrypted, whatever the key\<close>

lemma decrypt_encrypt: "decrypt (encrypt d k salt) k' = Inr (Val (JStr d))"
proof -
  have "utf8Slice (base64_decode (encrypt d k salt)) = stringify_data_salt d salt"
    by (simp add: encrypt_def base64_decode_encode utf8Slice_utf8ToBytes well_formed_stringify)
  moreover have "get_property (Val (JObj [(js ''data'', JStr d), (js ''salt'', JStr salt)]))
                   (js ''data'') = Some (Val (JStr d))"
    by (simp add: get_property_def js_def)
  ultimately show ?thesis
    by (simp add: decrypt_def JSON_parse_stringify)
qed

section \<open>Hexadecimal messages\<close>







section \<open>Further lemmas on the services\<close>




lemma retrieve_after_store:
  assumes "\<not> flt (KC_setInternetCredentials (key_service a))"
    and "\<not> flt' (KC_getInternetCredentials (key_service a))"
  shows "retrievePrivateKey flt' a pin' (snd (storePrivateKey flt now salt a k pin dev))
         = Val (JStr k)"
  using assms
  by (simp add: retrievePrivateKey_def storePrivateKey_def addToWalletList_def Let_def
      decrypt_encrypt split: sum.splits)

lemma signAndSend_keeps_nonzero_nonce:
  assumes "tx_nonce tx = Some n" "n \<noteq> 0" "signAndSend prov k tx = Inr (h, tx')"
  shows "tx_nonce tx' = Some n"
  using assms
  by (auto simp: signAndSend_def falsy_def split: option.splits if_splits)








section \<open>The claims\<close>

subsection \<open>Key storage\<close>

text \<open>
  Claim C1. The specification asks that \<open>retrievePrivateKey(address, wrongPin)\<close> return
  \<open>null\<close> for every PIN other than the one the key was stored under. The code does not:
  \<open>decrypt\<close> never reads its key. A key stored under the PIN 123456 comes back under
  the PIN 000000.
\<close>

theorem retrievePrivateKey_wrong_pin_returns_key:
  "js ''000000'' \<noteq> js ''123456''
   \<and> retrievePrivateKey no_faults account0 (js ''000000'')
       (snd (storePrivateKey no_faults 1700000000000 (js ''0x12345678'') account0
              account0_key (js ''123456'') empty_device))
     = Val (JStr account0_key)"
proof -
  have "js ''000000'' \<noteq> js ''123456''" by (simp add: js_def)
  then show ?thesis by (simp add: retrieve_after_store no_faults_def)
qed

text \<open>
  Claim C2. The specification asks that decrypting \<open>encrypt(S, P)\<close> with another password
  fail with the generic decrypt error. The code returns the secret: here for the two
  passwords hunter2 and hunter3.
\<close>

theorem decrypt_wrong_password_returns_secret:
  "js ''hunter2'' \<noteq> js ''hunter3''
   \<and> decrypt (encrypt (js ''secret'') (js ''hunter2'') (js ''0x12345678'')) (js ''hunter3'')
     = Inr (Val (JStr (js ''secret'')))"
proof -
  have "js ''hunter2'' \<noteq> js ''hunter3''" by (simp add: js_def)
  then show ?thesis by (simp add: decrypt_encrypt)
qed

text \<open>
  Claim C3. For every secret \<open>S\<close> and password \<open>P\<close> (and every salt the random wallet may
  contribute), \<open>decrypt(encrypt(S, P), P)\<close> returns exactly \<open>S\<close>.
\<close>

theorem decrypt_encrypt_roundtrip: "decrypt (encrypt S P salt) P = Inr (Val (JStr S))"
  by (rule decrypt_encrypt)




text \<open>
  Claim C9. The PINs Aa and BB are different strings with the same \<open>hashPin\<close>, so that after
  \<open>setPin('Aa')\<close> the call \<open>verifyPin('BB')\<close> returns \<open>true\<close>.
\<close>

theorem hashPin_collision:
  "js ''Aa'' \<noteq> js ''BB'' \<and> hashPin (js ''Aa'') = hashPin (js ''BB'')
   \<and> (\<forall>dev. fst (setPin no_faults (js ''Aa'') dev)
           \<and> verifyPin no_faults (js ''BB'') (snd (setPin no_faults (js ''Aa'') dev)))"
proof -
  have ne: "js ''Aa'' \<noteq> js ''BB''" by (simp add: js_def)
  have eq: "hashPin (js ''Aa'') = hashPin (js ''BB'')"
    by (simp add: hashPin_def js_def is_lead_def is_trail_def)
  have "fst (setPin no_faults (js ''Aa'') dev)
        \<and> verifyPin no_faults (js ''BB'') (snd (setPin no_faults (js ''Aa'') dev))" for dev
    by (simp add: setPin_def verifyPin_def no_faults_def Let_def eq)
  with ne eq show ?thesis by blast
qed




subsection \<open>Wallet creation\<close>

text \<open>
  Claim C4. The specification asks that \<open>createNewWallet\<close> return \<open>null\<close> and leave no
  registry entry when a persistence step fails. The code drops the results of the three
  \<open>keyManager\<close> calls: when the write of the mnemonic fails, \<open>storeMnemonic\<close> returns
  \<open>false\<close>, \<open>createNewWallet\<close> still returns the wallet, the registry holds its address
  and no mnemonic is stored.
\<close>

theorem createNewWallet_ignores_failed_store:
  "fst (storeMnemonic (env_faults mnemonic_write_fails) (env_now mnemonic_write_fails)
          (env_mnemonicSalt mnemonic_write_fails) (generateMnemonic mnemonic_write_fails)
          (js ''123456'') empty_device) = False
   \<and> fst (createNewWallet mnemonic_write_fails (js ''123456'') empty_device)
     = Some \<lparr>wa_address = account0, wa_privateKey = account0_key,
             wa_mnemonic = Some test_phrase\<rparr>
   \<and> map address (getWalletList no_faults
        (snd (createNewWallet mnemonic_write_fails (js ''123456'') empty_device)))
     = [account0]
   \<and> mnemonicItem (snd (createNewWallet mnemonic_write_fails (js ''123456'') empty_device))
     = None"
proof -
  have t: "trim test_phrase = test_phrase"
    by (simp add: trim_def test_phrase_def js_def is_js_space_def)
  have f: "env_faults mnemonic_write_fails (ES_setItem MNEMONIC_KEY)"
    "\<not> env_faults mnemonic_write_fails (KC_setInternetCredentials x)"
    "\<not> env_faults mnemonic_write_fails (ES_getItem y)"
    "\<not> env_faults mnemonic_write_fails (ES_setItem WALLET_LIST_KEY)"
    "\<not> env_faults mnemonic_write_fails (KC_setGenericPassword z)" for x y z
    by (simp_all add: mnemonic_write_fails_def MNEMONIC_KEY_def WALLET_LIST_KEY_def js_def)
  have e: "env_entropyPhrase mnemonic_write_fails = test_phrase"
    "env_validPhrase mnemonic_write_fails p" 
    "env_derive mnemonic_write_fails p i = (account0, account0_key)" for p i
    by (simp_all add: mnemonic_write_fails_def)
  show ?thesis
    by (simp add: createNewWallet_def createWalletFromMnemonic_def generateMnemonic_def
        storeMnemonic_def storePrivateKey_def addToWalletList_def setPin_def getWalletList_def
        empty_device_def Let_def no_faults_def t f e)
qed

subsection \<open>Replacing a transaction\<close>

text \<open>
  Claim C5. The specification asks that \<open>cancelTransaction\<close> and \<open>speedUpTransaction\<close>
  resubmit at the nonce of the original transaction, nonce 0 included. \<open>signAndSend\<close>
  tests \<open>!tx.nonce\<close>, which holds for 0: the replacement of a pending transaction with
  nonce 0 is submitted with the pending transaction count, 1, as its nonce.
\<close>

theorem replacement_of_nonce_zero_gets_pending_count:
  "cancelTransaction one_pending account0_key 0 (js ''2'')
   = Inr (js ''0x5c504ed432cb51138bcf09aa5e8a410dd4a1e204ef84bfed1be16dfba1b22060'',
       \<lparr>tx_to = Some account0, tx_value = Some 0, tx_data = None, tx_nonce = Some 1,
        tx_gasLimit = Some 21000, tx_gasPrice = Some 2000000000, tx_maxFeePerGas = None,
        tx_chainId = Some 1\<rparr>)
   \<and> speedUpTransaction one_pending account0_key
       \<lparr>tx_to = Some account1, tx_value = Some 5, tx_data = None, tx_nonce = Some 0,
        tx_gasLimit = Some 21000, tx_gasPrice = Some 1000000000, tx_maxFeePerGas = None,
        tx_chainId = Some 1\<rparr> (js ''2'')
     = Inr (js ''0x5c504ed432cb51138bcf09aa5e8a410dd4a1e204ef84bfed1be16dfba1b22060'',
       \<lparr>tx_to = Some account1, tx_value = Some 5, tx_data = None, tx_nonce = Some 1,
        tx_gasLimit = Some 21000, tx_gasPrice = Some 2000000000, tx_maxFeePerGas = None,
        tx_chainId = Some 1\<rparr>)"
  by (simp add: cancelTransaction_def speedUpTransaction_def signAndSend_def one_pending_def
      falsy_def)

subsection \<open>Formatting a signing request\<close>


end
